theory Spec2Isabelle
  imports Complex_Main "HOL-Library.Char_ord" "HOL-Library.List_Lexorder"
begin

section \<open>Data model of the dashboard (app.py)\<close>

text \<open>
  One row of the data frame built by \<open>load_data\<close>. A pandas \<open>Timestamp\<close> at midnight is
  modelled by its day number (an \<open>int\<close>), so that \<open>today - timedelta(days=30)\<close> is
  \<open>today - 30\<close>. Python floats are modelled by reals; a float that is not-a-number
  is the value \<open>None\<close> of \<open>real option\<close>.
\<close>

record rate_point =
  Date :: int
  Currency_Pair :: string
  Exchange_Rate :: real
  Volume :: int

record pair_config =
  base :: real
  volatility :: real

datatype risk_tier = Low | Medium | High

subsection \<open>Comparisons with not-a-number\<close>

text \<open>Every ordering comparison with not-a-number is false, as in IEEE 754 and Python.\<close>

fun nan_gt :: "real option \<Rightarrow> real \<Rightarrow> bool" where
  "nan_gt None c = False"
| "nan_gt (Some v) c = (v > c)"

fun nan_lt :: "real option \<Rightarrow> real \<Rightarrow> bool" where
  "nan_lt None c = False"
| "nan_lt (Some v) c = (v < c)"

fun nan_ge :: "real option \<Rightarrow> real \<Rightarrow> bool" where
  "nan_ge None c = False"
| "nan_ge (Some v) c = (v \<ge> c)"

subsection \<open>Series statistics (pandas)\<close>

text \<open>\<open>Series.mean()\<close>: not-a-number on an empty series.\<close>

definition mean_s :: "real list \<Rightarrow> real option" where
  "mean_s xs = (if xs = [] then None else Some (sum_list xs / real (length xs)))"

text \<open>\<open>Series.std()\<close>: the sample standard deviation (\<open>ddof = 1\<close>), not-a-number on a
  series of fewer than two values.\<close>

definition std_s :: "real list \<Rightarrow> real option" where
  "std_s xs =
     (if length xs < 2 then None
      else let m = sum_list xs / real (length xs)
           in Some (sqrt (sum_list (map (\<lambda>x. (x - m)\<^sup>2) xs) / real (length xs - 1))))"

text \<open>\<open>Series.max()\<close> and \<open>Series.min()\<close>: not-a-number (not-a-time) on an empty series.\<close>

fun max_s :: "('a::linorder) list \<Rightarrow> 'a option" where
  "max_s [] = None"
| "max_s (x # xs) = Some (fold max xs x)"

fun min_s :: "('a::linorder) list \<Rightarrow> 'a option" where
  "min_s [] = None"
| "min_s (x # xs) = Some (fold min xs x)"

subsection \<open>Rounding to decimals\<close>

text \<open>Python's \<open>round(x, n)\<close> and the format \<open>f"{x:.nf}"\<close> round to the nearest multiple
  of \<open>10^-n\<close>, ties to the even one. \<open>fmt n v\<close> is the number a formatted string shows
  (\<open>None\<close> for the string "nan").\<close>

definition round_half_even :: "real \<Rightarrow> int" where
  "round_half_even x =
     (let f = \<lfloor>x\<rfloor>; d = x - of_int f
      in if d < 1/2 then f else if d > 1/2 then f + 1 else if even f then f else f + 1)"

definition round_nd :: "nat \<Rightarrow> real \<Rightarrow> real" where
  "round_nd n x = of_int (round_half_even (x * 10 ^ n)) / 10 ^ n"

definition fmt :: "nat \<Rightarrow> real option \<Rightarrow> real option" where
  "fmt n v = map_option (round_nd n) v"

section \<open>Filter and analytics\<close>

subsection \<open>Risk label of the metrics row and of the statistics table\<close>

text \<open>Lines 120 and 227:
  \<open>"High" if volatility > 5 else "Medium" if volatility > 1 else "Low"\<close>.\<close>

definition risk :: "real option \<Rightarrow> risk_tier" where
  "risk vol = (if nan_gt vol 5 then High else if nan_gt vol 1 then Medium else Low)"

subsection \<open>Filtering (lines 70-85)\<close>

text \<open>\<open>today\<close> is \<open>df['Date'].max()\<close>; on a frame without rows it is not-a-time, and so is
  every date derived from it.\<close>

definition start_date :: "rate_point list \<Rightarrow> string \<Rightarrow> int option" where
  "start_date df period =
     (let today = max_s (map Date df)
      in if period = ''Last 30 Days'' then map_option (\<lambda>t. t - 30) today
         else if period = ''Last 90 Days'' then map_option (\<lambda>t. t - 90) today
         else if period = ''Last 6 Months'' then map_option (\<lambda>t. t - 180) today
         else min_s (map Date df))"

text \<open>\<open>df['Date'] >= start_date\<close>: false for every row when \<open>start_date\<close> is not-a-time.\<close>

fun date_ge :: "int \<Rightarrow> int option \<Rightarrow> bool" where
  "date_ge d None = False"
| "date_ge d (Some s) = (d \<ge> s)"

definition filtered_data :: "rate_point list \<Rightarrow> string list \<Rightarrow> string \<Rightarrow> rate_point list" where
  "filtered_data df currencies period =
     filter (\<lambda>r. Currency_Pair r \<in> set currencies \<and> date_ge (Date r) (start_date df period)) df"

subsection \<open>Per-pair series\<close>

text \<open>\<open>filtered_data[filtered_data['Currency_Pair'] == currency]['Exchange_Rate']\<close>\<close>

definition curr_data :: "rate_point list \<Rightarrow> string \<Rightarrow> real list" where
  "curr_data fd currency = map Exchange_Rate (filter (\<lambda>r. Currency_Pair r = currency) fd)"

subsection \<open>Key metrics (lines 95-126)\<close>

record summary_metrics =
  pair_count :: nat
  avg_rate :: "real option"
  total_volume :: "real option"
  risk_level :: risk_tier

definition key_metrics :: "rate_point list \<Rightarrow> string list \<Rightarrow> summary_metrics" where
  "key_metrics fd currencies =
     \<lparr>pair_count = length currencies,
      avg_rate = fmt 3 (mean_s (map Exchange_Rate fd)),
      total_volume = fmt 1 (Some (real_of_int (sum_list (map Volume fd)) / 1000000)),
      risk_level = risk (std_s (map Exchange_Rate fd))\<rparr>"

subsection \<open>Peak and lowest rate per pair (line 167)\<close>

text \<open>\<open>groupby('Currency_Pair')\<close> lists the groups by ascending key.\<close>

definition stats :: "rate_point list \<Rightarrow> (string \<times> real option \<times> real option) list" where
  "stats fd =
     map (\<lambda>p. (p, min_s (curr_data fd p), max_s (curr_data fd p)))
       (sort (remdups (map Currency_Pair fd)))"

subsection \<open>Currency basket (lines 203-204)\<close>

text \<open>\<open>filtered_data.groupby('Date')['Exchange_Rate'].mean().reset_index()\<close>:
  one entry per distinct date, by ascending date.\<close>

definition basket_data :: "rate_point list \<Rightarrow> (int \<times> real option) list" where
  "basket_data fd =
     map (\<lambda>d. (d, mean_s (map Exchange_Rate (filter (\<lambda>r. Date r = d) fd))))
       (sort (remdups (map Date fd)))"

subsection \<open>Statistics table (lines 222-237)\<close>

record stat_row =
  Pair_Name :: string
  Current_Rate :: "real option"
  Peak_Rate :: "real option"
  Lowest_Rate :: "real option"
  Average_Rate :: "real option"
  Volatility :: "real option"
  Risk_Level :: risk_tier

definition stat_row_of :: "string \<Rightarrow> real list \<Rightarrow> stat_row" where
  "stat_row_of currency cd =
     (let vol = std_s cd; risk_level = risk vol
      in \<lparr>Pair_Name = currency,
          Current_Rate = fmt 4 (Some (last cd)),
          Peak_Rate = fmt 4 (max_s cd),
          Lowest_Rate = fmt 4 (min_s cd),
          Average_Rate = fmt 4 (mean_s cd),
          Volatility = fmt 3 vol,
          Risk_Level = risk_level\<rparr>)"

fun stats_data :: "rate_point list \<Rightarrow> string list \<Rightarrow> stat_row list" where
  "stats_data fd [] = []"
| "stats_data fd (currency # rest) =
     (let cd = curr_data fd currency
      in if length cd > 0 then stat_row_of currency cd # stats_data fd rest
         else stats_data fd rest)"

subsection \<open>Risk buckets (lines 251, 262, 273)\<close>

definition low_risk :: "rate_point list \<Rightarrow> string list \<Rightarrow> string list" where
  "low_risk fd currencies = filter (\<lambda>curr. nan_lt (std_s (curr_data fd curr)) 1) currencies"

definition med_risk :: "rate_point list \<Rightarrow> string list \<Rightarrow> string list" where
  "med_risk fd currencies =
     filter (\<lambda>curr. nan_ge (std_s (curr_data fd curr)) 1 \<and> nan_lt (std_s (curr_data fd curr)) 5)
       currencies"

definition high_risk :: "rate_point list \<Rightarrow> string list \<Rightarrow> string list" where
  "high_risk fd currencies = filter (\<lambda>curr. nan_ge (std_s (curr_data fd curr)) 5) currencies"

text \<open>The lines each bucket writes: \<open>f"{curr} (sigma: {vol:.3f})"\<close> for every member.\<close>

definition bucket_lines :: "rate_point list \<Rightarrow> string list \<Rightarrow> (string \<times> real option) list" where
  "bucket_lines fd bucket = map (\<lambda>curr. (curr, fmt 3 (std_s (curr_data fd curr)))) bucket"

subsection \<open>The script after the data is loaded (lines 70-279)\<close>

text \<open>\<open>st.warning(...)\<close> followed by \<open>st.stop()\<close> ends the run of the script with the
  warning as its only result; otherwise every section is computed.\<close>

datatype notice = EmptySelection

record analysis =
  metrics :: summary_metrics
  trend_rows :: "rate_point list"
  peak_low :: "(string \<times> real option \<times> real option) list"
  basket :: "(int \<times> real option) list"
  table :: "stat_row list"
  low_lines :: "(string \<times> real option) list"
  med_lines :: "(string \<times> real option) list"
  high_lines :: "(string \<times> real option) list"

definition dashboard :: "rate_point list \<Rightarrow> string list \<Rightarrow> string \<Rightarrow> notice + analysis" where
  "dashboard df currencies period =
     (let fd = filtered_data df currencies period
      in if fd = [] then Inl EmptySelection
         else Inr \<lparr>metrics = key_metrics fd currencies,
                   trend_rows = fd,
                   peak_low = stats fd,
                   basket = basket_data fd,
                   table = stats_data fd currencies,
                   low_lines = bucket_lines fd (low_risk fd currencies),
                   med_lines = bucket_lines fd (med_risk fd currencies),
                   high_lines = bucket_lines fd (high_risk fd currencies)\<rparr>)"

section \<open>Generation of the sample data (lines 17-46)\<close>

subsection \<open>Calendar\<close>

text \<open>Day number of a date of the proleptic Gregorian calendar, counted from 1970-01-01.\<close>

definition leap_year :: "int \<Rightarrow> bool" where
  "leap_year y = (y mod 4 = 0 \<and> (y mod 100 \<noteq> 0 \<or> y mod 400 = 0))"

definition days_before_year :: "int \<Rightarrow> int" where
  "days_before_year y =
     (let p = y - 1 in 365 * p + p div 4 - p div 100 + p div 400 - 719162)"

definition days_before_month :: "int \<Rightarrow> int \<Rightarrow> int" where
  "days_before_month y m =
     sum_list (take (nat (m - 1))
       [31, if leap_year y then 29 else 28, 31, 30, 31, 30, 31, 31, 30, 31, 30, 31])"

definition day_number :: "int \<Rightarrow> int \<Rightarrow> int \<Rightarrow> int" where
  "day_number y m d = days_before_year y + days_before_month y m + (d - 1)"

text \<open>\<open>pd.date_range(start, end, freq='D')\<close> holds every day from \<open>start\<close> to \<open>end\<close>,
  both included.\<close>

definition date_range :: "int \<Rightarrow> int \<Rightarrow> int list" where
  "date_range start end = [start..end]"

subsection \<open>Random source\<close>

text \<open>numpy's global generator is a state threaded through the calls. Its two primitive
  draws are parameters: a standard normal deviate and a non-negative integer.
  \<open>np.random.normal(loc, scale)\<close> is \<open>loc + scale * z\<close>; \<open>np.random.randint(low, high)\<close>
  reduces its draw to the half-open range from \<open>low\<close> to \<open>high\<close>.\<close>

record 's random_source =
  gauss :: "'s \<Rightarrow> real \<times> 's"
  uniform :: "'s \<Rightarrow> nat \<times> 's"

definition normal :: "'s random_source \<Rightarrow> real \<Rightarrow> real \<Rightarrow> 's \<Rightarrow> real \<times> 's" where
  "normal R loc scale s = (let (z, s') = gauss R s in (loc + scale * z, s'))"

definition randint :: "'s random_source \<Rightarrow> int \<Rightarrow> int \<Rightarrow> 's \<Rightarrow> int \<times> 's" where
  "randint R low high s = (let (u, s') = uniform R s in (low + int u mod (high - low), s'))"

subsection \<open>The two loops\<close>

definition pairs :: "(string \<times> pair_config) list" where
  "pairs =
     [(''USD/EUR'', \<lparr>base = 85/100, volatility = 1/100\<rparr>),
      (''USD/GBP'', \<lparr>base = 75/100, volatility = 12/1000\<rparr>),
      (''USD/JPY'', \<lparr>base = 110, volatility = 15/10\<rparr>),
      (''USD/INR'', \<lparr>base = 83, volatility = 8/10\<rparr>),
      (''EUR/GBP'', \<lparr>base = 88/100, volatility = 8/1000\<rparr>),
      (''GBP/INR'', \<lparr>base = 110, volatility = 12/10\<rparr>)]"

fun pair_loop ::
  "'s random_source \<Rightarrow> nat \<Rightarrow> int \<Rightarrow> (string \<times> pair_config) list \<Rightarrow> 's \<Rightarrow> rate_point list \<times> 's"
where
  "pair_loop R i date [] s = ([], s)"
| "pair_loop R i date ((pair_name, config) # rest) s =
     (let trend = sin (real i * (2/100)) * (5/100);
          (random_change, s1) = normal R 0 (volatility config) s;
          rate = base config * (1 + trend + random_change);
          (vol, s2) = randint R 1000000 8000000 s1;
          row = \<lparr>Date = date, Currency_Pair = pair_name,
                 Exchange_Rate = round_nd 4 rate, Volume = vol\<rparr>;
          (rows, s3) = pair_loop R i date rest s2
      in (row # rows, s3))"

fun date_loop ::
  "'s random_source \<Rightarrow> (string \<times> pair_config) list \<Rightarrow> nat \<Rightarrow> int list \<Rightarrow> 's \<Rightarrow> rate_point list \<times> 's"
where
  "date_loop R ps i [] s = ([], s)"
| "date_loop R ps i (date # rest) s =
     (let (rows, s1) = pair_loop R i date ps s;
          (more, s2) = date_loop R ps (Suc i) rest s1
      in (rows @ more, s2))"

definition generate ::
  "'s random_source \<Rightarrow> int list \<Rightarrow> (string \<times> pair_config) list \<Rightarrow> 's \<Rightarrow> rate_point list"
where
  "generate R dates ps s = fst (date_loop R ps 0 dates s)"

definition load_data :: "'s random_source \<Rightarrow> 's \<Rightarrow> rate_point list" where
  "load_data R s = generate R (date_range (day_number 2023 1 1) (day_number 2024 1 1)) pairs s"

section \<open>A small data set for the worked examples\<close>

definition row :: "int \<Rightarrow> string \<Rightarrow> real \<Rightarrow> rate_point" where
  "row d p x = \<lparr>Date = d, Currency_Pair = p, Exchange_Rate = x, Volume = 1000000\<rparr>"

text \<open>USD/EUR is quoted on three late days, USD/JPY on three early days only.\<close>

definition sample_df :: "rate_point list" where
  "sample_df =
     [row 1 ''USD/JPY'' 1, row 2 ''USD/JPY'' 6, row 3 ''USD/JPY'' 11,
      row 100 ''USD/EUR'' (85/100), row 101 ''USD/EUR'' (86/100), row 102 ''USD/EUR'' (87/100)]"

subsection \<open>The start date as the specification words it\<close>

text \<open>The specification names the periods Last30, Last90, Last180 and AllTime; the
  selector offers them under the labels compared at lines 72-79. \<open>spec_start_date\<close>
  follows the specification: the latest date of the data set minus the offset, and the
  earliest date for AllTime.\<close>

datatype period = Last30 | Last90 | Last180 | AllTime

fun period_label :: "period \<Rightarrow> string" where
  "period_label Last30 = ''Last 30 Days''"
| "period_label Last90 = ''Last 90 Days''"
| "period_label Last180 = ''Last 6 Months''"
| "period_label AllTime = ''Last Year''"

fun spec_start_date :: "rate_point list \<Rightarrow> period \<Rightarrow> int" where
  "spec_start_date df Last30 = Max (Date ` set df) - 30"
| "spec_start_date df Last90 = Max (Date ` set df) - 90"
| "spec_start_date df Last180 = Max (Date ` set df) - 180"
| "spec_start_date df AllTime = Min (Date ` set df)"

abbreviation key :: "rate_point \<Rightarrow> int \<times> string" where
  "key r \<equiv> (Date r, Currency_Pair r)"

text \<open>A random source whose every draw is the same.\<close>

definition fixed_source :: "real \<Rightarrow> nat \<Rightarrow> unit random_source" where
  "fixed_source z u = \<lparr>gauss = (\<lambda>s. (z, s)), uniform = (\<lambda>s. (u, s))\<rparr>"

section \<open>Properties\<close>

subsection \<open>Helper facts\<close>

lemma stats_data_names:
  "map Pair_Name (stats_data fd cs) = filter (\<lambda>c. curr_data fd c \<noteq> []) cs"
  by (induction cs) (simp_all add: Let_def stat_row_of_def)

lemma std_s_Nil: "std_s [] = None"
  by (simp add: std_s_def)

lemma risk_cases:
  "risk (Some v) = (if v > 5 then High else if v > 1 then Medium else Low)"
  by (simp add: risk_def)

lemma std_three: "std_s [1, 6, 11] = Some 5"
proof -
  have "sqrt 25 = 5" by (simp add: real_sqrt_unique)
  then show ?thesis by (simp add: std_s_def power2_eq_square)
qed

lemma max_s_Max: "xs \<noteq> [] \<Longrightarrow> max_s xs = Some (Max (set xs))"
  by (cases xs) (simp_all add: Max.set_eq_fold [symmetric])

lemma min_s_Min: "xs \<noteq> [] \<Longrightarrow> min_s xs = Some (Min (set xs))"
  by (cases xs) (simp_all add: Min.set_eq_fold [symmetric])

lemma start_date_nonempty:
  assumes "df \<noteq> []"
  shows "start_date df period =
     Some (if period = ''Last 30 Days'' then Max (Date ` set df) - 30
           else if period = ''Last 90 Days'' then Max (Date ` set df) - 90
           else if period = ''Last 6 Months'' then Max (Date ` set df) - 180
           else Min (Date ` set df))"
  using assms by (simp add: start_date_def max_s_Max min_s_Min)

subsection \<open>Risk thresholds\<close>

text \<open>
  C1. The risk label of the metrics row (line 120) and of the statistics table
  (line 227) compares strictly: a standard deviation of exactly 5.0 is labelled Medium and
  one of exactly 1.0 is labelled Low. The buckets of lines 251-273 and the captions
  printed above them ("1.0 \<le> Volatility < 5.0", "Volatility \<ge> 5.0") include the
  boundaries. For the three rates 1, 6, 11 of one pair (standard deviation exactly 5)
  the metrics row and the table say Medium while the pair is listed in the high-risk
  bucket.
\<close>

theorem risk_boundary_divergence:
  "risk (Some 5) = Medium \<and> risk (Some 1) = Low \<and>
   risk_level
     (key_metrics [row 1 ''USD/JPY'' 1, row 2 ''USD/JPY'' 6, row 3 ''USD/JPY'' 11] [''USD/JPY''])
     = Medium \<and>
   map Risk_Level
     (stats_data [row 1 ''USD/JPY'' 1, row 2 ''USD/JPY'' 6, row 3 ''USD/JPY'' 11] [''USD/JPY''])
     = [Medium] \<and>
   high_risk [row 1 ''USD/JPY'' 1, row 2 ''USD/JPY'' 6, row 3 ''USD/JPY'' 11] [''USD/JPY'']
     = [''USD/JPY'']"
  by (simp add: risk_def high_risk_def curr_data_def stat_row_of_def key_metrics_def std_three row_def)

subsection \<open>Risk buckets\<close>

text \<open>
  C10. The three buckets are pairwise disjoint, and together they hold exactly the
  selected pairs whose standard deviation in the view is a number (not not-a-number):
  every such pair is in exactly one bucket.
\<close>

theorem risk_buckets_partition:
  "set (low_risk fd cs) \<inter> set (med_risk fd cs) = {} \<and>
   set (low_risk fd cs) \<inter> set (high_risk fd cs) = {} \<and>
   set (med_risk fd cs) \<inter> set (high_risk fd cs) = {} \<and>
   set (low_risk fd cs) \<union> set (med_risk fd cs) \<union> set (high_risk fd cs) =
     {c \<in> set cs. std_s (curr_data fd c) \<noteq> None}"
proof -
  have tri: "\<And>v. (nan_lt v 1 \<or> (nan_ge v 1 \<and> nan_lt v 5) \<or> nan_ge v 5) = (v \<noteq> None)"
    by (case_tac v) auto
  have d1: "\<And>v. \<not> (nan_lt v 1 \<and> nan_ge v 1)" by (case_tac v) auto
  have d2: "\<And>v. \<not> (nan_lt v 1 \<and> nan_ge v 5)" by (case_tac v) auto
  have d3: "\<And>v. \<not> (nan_lt v 5 \<and> nan_ge v 5)" by (case_tac v) auto
  show ?thesis
    unfolding low_risk_def med_risk_def high_risk_def
    using tri d1 d2 d3 by auto
qed

subsection \<open>Pairs without rows in the view\<close>

text \<open>
  C9. When the script runs past the empty-view check, a selected pair without a row in
  the filtered view has no row in the statistics table and no line in any of the three
  risk buckets: its not-a-number standard deviation fails all three comparisons and is
  never written.
\<close>

theorem empty_pair_skipped:
  assumes "dashboard df currencies period = Inr a"
    and "c \<in> set currencies"
    and "curr_data (filtered_data df currencies period) c = []"
  shows "c \<notin> Pair_Name ` set (table a) \<and> c \<notin> fst ` set (low_lines a) \<and>
         c \<notin> fst ` set (med_lines a) \<and> c \<notin> fst ` set (high_lines a)"
proof -
  let ?fd = "filtered_data df currencies period"
  from assms(1) have a: "table a = stats_data ?fd currencies"
     "low_lines a = bucket_lines ?fd (low_risk ?fd currencies)"
     "med_lines a = bucket_lines ?fd (med_risk ?fd currencies)"
     "high_lines a = bucket_lines ?fd (high_risk ?fd currencies)"
    by (auto simp: dashboard_def Let_def split: if_splits)
  have n: "std_s (curr_data ?fd c) = None" using assms(3) by (simp add: std_s_Nil)
  have "Pair_Name ` set (stats_data ?fd currencies) = set (map Pair_Name (stats_data ?fd currencies))"
    by simp
  then have t: "c \<notin> Pair_Name ` set (table a)"
    unfolding a stats_data_names using assms(3) by simp
  have f: "\<And>b. fst ` set (bucket_lines ?fd b) = set b" by (force simp: bucket_lines_def)
  show ?thesis using t n unfolding a f
    by (simp add: low_risk_def med_risk_def high_risk_def)
qed

lemma sample_view:
  "filtered_data sample_df [''USD/EUR'', ''USD/JPY''] ''Last 30 Days'' =
     [row 100 ''USD/EUR'' (85/100), row 101 ''USD/EUR'' (86/100), row 102 ''USD/EUR'' (87/100)]"
  by (simp add: filtered_data_def start_date_def sample_df_def row_def)

theorem empty_pair_skipped_witness:
  "\<exists>a. dashboard sample_df [''USD/EUR'', ''USD/JPY''] ''Last 30 Days'' = Inr a \<and>
       curr_data (filtered_data sample_df [''USD/EUR'', ''USD/JPY''] ''Last 30 Days'') ''USD/JPY'' = [] \<and>
       ''USD/JPY'' \<notin> Pair_Name ` set (table a) \<and> ''USD/JPY'' \<notin> fst ` set (low_lines a) \<and>
       ''USD/JPY'' \<notin> fst ` set (med_lines a) \<and> ''USD/JPY'' \<notin> fst ` set (high_lines a)"
proof -
  let ?cs = "[''USD/EUR'', ''USD/JPY'']"
  have "\<exists>a. dashboard sample_df ?cs ''Last 30 Days'' = Inr a"
    by (simp add: dashboard_def sample_view Let_def)
  then obtain a where a: "dashboard sample_df ?cs ''Last 30 Days'' = Inr a" ..
  have c: "''USD/JPY'' \<in> set ?cs" by simp
  have e: "curr_data (filtered_data sample_df ?cs ''Last 30 Days'') ''USD/JPY'' = []"
    by (simp add: sample_view curr_data_def row_def)
  show ?thesis using empty_pair_skipped [OF a c e] a e by blast
qed

subsection \<open>Empty view\<close>

text \<open>
  C5. When the filtered view has no rows the script ends with the warning
  (the notice \<open>EmptySelection\<close>) and computes no analysis: no metrics, statistics, basket
  or risk buckets.
\<close>

theorem empty_selection_halts:
  "filtered_data df currencies period = [] \<Longrightarrow>
     dashboard df currencies period = Inl EmptySelection \<and>
     (\<forall>a. dashboard df currencies period \<noteq> Inr a)"
  by (simp add: dashboard_def)

theorem empty_selection_halts_witness:
  "filtered_data sample_df [''USD/JPY''] ''Last 30 Days'' = [] \<and>
   dashboard sample_df [''USD/JPY''] ''Last 30 Days'' = Inl EmptySelection"
proof -
  have e: "filtered_data sample_df [''USD/JPY''] ''Last 30 Days'' = []"
    by (simp add: filtered_data_def start_date_def sample_df_def row_def)
  show ?thesis using empty_selection_halts [OF e] e by simp
qed

subsection \<open>Filtering twice\<close>

text \<open>
  C8. Filtering an already filtered view with the same selection changes nothing. The
  second pass derives its start date from the view, whose latest date is not later and
  whose earliest date is not earlier than those of the data set, so it keeps every row.
\<close>

theorem filtered_data_idempotent:
  "filtered_data (filtered_data df currencies period) currencies period =
   filtered_data df currencies period"
proof -
  let ?V = "filtered_data df currencies period"
  have "\<forall>r \<in> set ?V. Currency_Pair r \<in> set currencies \<and> date_ge (Date r) (start_date ?V period)"
  proof
    fix r assume r: "r \<in> set ?V"
    then have ne: "?V \<noteq> []" by auto
    from r have dne: "df \<noteq> []" by (auto simp: filtered_data_def)
    have sub: "set ?V \<subseteq> set df" by (auto simp: filtered_data_def)
    from r have cp: "Currency_Pair r \<in> set currencies"
      and ge: "date_ge (Date r) (start_date df period)"
      by (auto simp: filtered_data_def)
    have mx: "Max (Date ` set ?V) \<le> Max (Date ` set df)"
      using sub ne by (intro Max_mono) auto
    have mn: "Min (Date ` set ?V) \<le> Date r" using r by simp
    have "date_ge (Date r) (start_date ?V period)"
      using ge mx mn unfolding start_date_nonempty[OF ne] start_date_nonempty[OF dne]
      by (auto split: if_splits)
    with cp show "Currency_Pair r \<in> set currencies \<and> date_ge (Date r) (start_date ?V period)"
      by simp
  qed
  then show ?thesis
    by (subst (1) filtered_data_def) (simp add: filter_id_conv)
qed

subsection \<open>Facts about the helper functions\<close>

lemma basket_dates: "map fst (basket_data fd) = sort (remdups (map Date fd))"
  by (simp add: basket_data_def comp_def)

lemma basket_entry:
  assumes "r \<in> set fd"
  shows "(Date r, mean_s (map Exchange_Rate (filter (\<lambda>x. Date x = Date r) fd))) \<in> set (basket_data fd)"
  using assms by (force simp: basket_data_def)

lemma filter_key_single:
  "distinct (map f xs) \<Longrightarrow> r \<in> set xs \<Longrightarrow> filter (\<lambda>x. f x = f r) xs = [r]"
proof (induction xs)
  case Nil
  then show ?case by simp
next
  case (Cons a xs)
  show ?case
  proof (cases "a = r")
    case True
    with Cons.prems have "f r \<notin> f ` set xs" by simp
    then have "\<forall>x \<in> set xs. f x \<noteq> f r" by (metis imageI)
    then have "filter (\<lambda>x. f x = f r) xs = []" by (simp add: filter_empty_conv)
    with True show ?thesis by simp
  next
    case False
    with Cons.prems have "r \<in> set xs" "f a \<noteq> f r" by auto
    with Cons show ?thesis by simp
  qed
qed

lemma stats_data_mem:
  "srow \<in> set (stats_data fd cs) \<Longrightarrow>
     \<exists>c \<in> set cs. curr_data fd c \<noteq> [] \<and> srow = stat_row_of c (curr_data fd c)"
  by (induction cs) (auto simp: Let_def split: if_splits)

lemma sorted_le_last: "sorted xs \<Longrightarrow> x \<in> set xs \<Longrightarrow> x \<le> last xs"
  by (induction xs) (auto)

lemma round_half_even_int: "round_half_even (of_int k) = k"
  by (simp add: round_half_even_def)

lemma round_nd_idem: "round_nd n (round_nd n x) = round_nd n x"
  by (simp add: round_nd_def round_half_even_int)

lemma pair_loop_fst:
  "fst (pair_loop R i d (p # ps) s) =
     \<lparr>Date = d, Currency_Pair = fst p,
      Exchange_Rate = round_nd 4 (base (snd p) *
         (1 + sin (real i * (2/100)) * (5/100) + volatility (snd p) * fst (gauss R s))),
      Volume = 1000000 + int (fst (uniform R (snd (gauss R s)))) mod 7000000\<rparr>
     # fst (pair_loop R i d ps (snd (uniform R (snd (gauss R s)))))"
  by (cases p) (simp add: Let_def case_prod_beta normal_def randint_def)

lemma date_loop_fst:
  "fst (date_loop R ps i (d # ds) s) =
     fst (pair_loop R i d ps s) @ fst (date_loop R ps (Suc i) ds (snd (pair_loop R i d ps s)))"
  by (simp add: Let_def case_prod_beta)

lemma pair_loop_keys:
  "map key (fst (pair_loop R i d ps s)) = map (\<lambda>p. (d, fst p)) ps"
  by (induction ps arbitrary: s) (simp_all add: pair_loop_fst del: pair_loop.simps(2))

lemma pair_loop_volume:
  "r \<in> set (fst (pair_loop R i d ps s)) \<Longrightarrow> 1000000 \<le> Volume r \<and> Volume r < 8000000"
proof (induction ps arbitrary: s)
  case Nil
  then show ?case by simp
next
  case (Cons p ps)
  let ?u = "int (fst (uniform R (snd (gauss R s))))"
  have "0 \<le> ?u mod 7000000" "?u mod 7000000 < 7000000" by simp_all
  then have vr: "1000000 \<le> 1000000 + ?u mod 7000000 \<and> 1000000 + ?u mod 7000000 < 8000000"
    by linarith
  from Cons.prems have "Volume r = 1000000 + ?u mod 7000000 \<or>
      r \<in> set (fst (pair_loop R i d ps (snd (uniform R (snd (gauss R s))))))"
    by (auto simp: pair_loop_fst simp del: pair_loop.simps(2))
  then show ?case using vr Cons.IH by metis
qed

lemma pair_loop_rounded:
  "r \<in> set (fst (pair_loop R i d ps s)) \<Longrightarrow> round_nd 4 (Exchange_Rate r) = Exchange_Rate r"
proof (induction ps arbitrary: s)
  case Nil
  then show ?case by simp
next
  case (Cons p ps)
  from Cons.prems have "(\<exists>x. Exchange_Rate r = round_nd 4 x) \<or>
      r \<in> set (fst (pair_loop R i d ps (snd (uniform R (snd (gauss R s))))))"
    by (auto simp: pair_loop_fst simp del: pair_loop.simps(2))
  then show ?case using Cons.IH round_nd_idem by metis
qed

lemma date_loop_keys:
  "map key (fst (date_loop R ps i ds s)) = List.product ds (map fst ps)"
proof (induction ds arbitrary: i s)
  case Nil
  then show ?case by simp
next
  case (Cons d ds)
  have "map key (fst (pair_loop R i d ps s)) = map (Pair d) (map fst ps)"
    by (simp add: pair_loop_keys comp_def)
  then show ?case using Cons.IH by (simp add: date_loop_fst del: date_loop.simps(2))
qed

lemma date_loop_row:
  "r \<in> set (fst (date_loop R ps i ds s)) \<Longrightarrow> \<exists>j d t. r \<in> set (fst (pair_loop R j d ps t))"
proof (induction ds arbitrary: i s)
  case Nil
  then show ?case by simp
next
  case (Cons d ds)
  from Cons.prems have "r \<in> set (fst (pair_loop R i d ps s)) \<or>
      r \<in> set (fst (date_loop R ps (Suc i) ds (snd (pair_loop R i d ps s))))"
    by (simp add: date_loop_fst del: date_loop.simps(2))
  then show ?case using Cons.IH by blast
qed

lemma sorted_product_fst:
  "sorted xs \<Longrightarrow> sorted (map fst (List.product xs ys))"
  by (induction xs) (auto simp: sorted_append comp_def map_replicate_const)

lemma generate_sorted:
  assumes "sorted ds"
  shows "sorted (map Date (generate R ds ps s))"
proof -
  have "map fst (map key (generate R ds ps s)) = map fst (List.product ds (map fst ps))"
    by (simp only: generate_def date_loop_keys)
  then have "map Date (generate R ds ps s) = map fst (List.product ds (map fst ps))"
    by (simp add: comp_def)
  then show ?thesis using assms by (simp add: sorted_product_fst)
qed

lemma generate_rounded:
  assumes "r \<in> set (generate R ds ps s)"
  shows "round_nd 4 (Exchange_Rate r) = Exchange_Rate r"
proof -
  from assms have "r \<in> set (fst (date_loop R ps 0 ds s))" by (simp add: generate_def)
  from date_loop_row [OF this] obtain j d t where "r \<in> set (fst (pair_loop R j d ps t))"
    by auto
  then show ?thesis by (rule pair_loop_rounded)
qed

lemma pairs_names: "map fst pairs = [''USD/EUR'', ''USD/GBP'', ''USD/JPY'', ''USD/INR'', ''EUR/GBP'', ''GBP/INR'']"
  by (simp add: pairs_def)

lemma generate_length: "length (generate R ds ps s) = length ds * length ps"
  using arg_cong [OF date_loop_keys, of length R ps 0 ds s] by (simp add: generate_def)

subsection \<open>The filtered view\<close>

text \<open>
  C4. For each of the four periods the filtered view is the data set restricted to the
  rows whose pair is selected and whose date is not before the start date of the
  specification: the latest date minus 30, 90 or 180 days, or the earliest date.
  The rows keep their order and multiplicity.
\<close>

theorem filtered_data_spec:
  "filtered_data df currencies (period_label p) =
     filter (\<lambda>r. Currency_Pair r \<in> set currencies \<and> spec_start_date df p \<le> Date r) df"
proof (cases "df = []")
  case True
  then show ?thesis by (simp add: filtered_data_def)
next
  case False
  have "start_date df (period_label p) = Some (spec_start_date df p)"
    unfolding start_date_nonempty [OF False] by (cases p) simp_all
  then show ?thesis by (simp add: filtered_data_def)
qed

subsection \<open>Latest rate in the statistics table\<close>

text \<open>
  C6. The table takes the current rate of a pair from the last of its rows in the
  filtered view and prints it with four decimals. On data ordered by date whose rates
  are rounded to four decimals, as \<open>generate\<close> builds them (\<open>generate_sorted\<close>,
  \<open>generate_rounded\<close>), that is the rate of a row of the pair with the latest date in
  the view.
\<close>

theorem current_rate_latest:
  assumes "sorted (map Date df)"
    and "\<forall>r \<in> set df. round_nd 4 (Exchange_Rate r) = Exchange_Rate r"
    and "srow \<in> set (stats_data (filtered_data df cs p) cs)"
  shows "\<exists>r \<in> set (filtered_data df cs p).
           Currency_Pair r = Pair_Name srow \<and>
           (\<forall>x \<in> set (filtered_data df cs p).
              Currency_Pair x = Pair_Name srow \<longrightarrow> Date x \<le> Date r) \<and>
           Current_Rate srow = Some (Exchange_Rate r)"
proof -
  let ?fd = "filtered_data df cs p"
  from stats_data_mem [OF assms(3)] obtain c where
    c: "c \<in> set cs" "curr_data ?fd c \<noteq> []" "srow = stat_row_of c (curr_data ?fd c)" by blast
  let ?rows = "filter (\<lambda>r. Currency_Pair r = c) ?fd"
  have ne: "?rows \<noteq> []" using c(2) by (simp add: curr_data_def)
  let ?r = "last ?rows"
  have in_rows: "?r \<in> set ?rows" using ne by (rule last_in_set)
  then have in_fd: "?r \<in> set ?fd" and pr: "Currency_Pair ?r = c" by auto
  have in_df: "?r \<in> set df" using in_fd by (simp add: filtered_data_def)
  have "sorted (map Date ?fd)" unfolding filtered_data_def using assms(1) by (rule sorted_filter)
  then have srt: "sorted (map Date ?rows)" by (rule sorted_filter)
  have mx: "\<forall>x \<in> set ?fd. Currency_Pair x = c \<longrightarrow> Date x \<le> Date ?r"
  proof (intro ballI impI)
    fix x assume "x \<in> set ?fd" "Currency_Pair x = c"
    then have "Date x \<in> set (map Date ?rows)" by simp
    from sorted_le_last [OF srt this] show "Date x \<le> Date ?r" using ne by (simp add: last_map)
  qed
  have nm: "Pair_Name srow = c" using c(3) by (simp add: stat_row_of_def Let_def)
  have "Current_Rate srow = Some (round_nd 4 (Exchange_Rate ?r))"
    using c(3) ne by (simp add: stat_row_of_def Let_def fmt_def curr_data_def last_map)
  also have "\<dots> = Some (Exchange_Rate ?r)" using assms(2) in_df by simp
  finally show ?thesis using in_fd pr mx nm by blast
qed

lemma sample_all:
  "filtered_data sample_df [''USD/EUR'', ''USD/JPY''] ''Last Year'' = sample_df"
  by (simp add: filtered_data_def start_date_def sample_df_def row_def)

theorem current_rate_latest_witness:
  "sorted (map Date sample_df) \<and>
   list_all (\<lambda>r. round_nd 4 (Exchange_Rate r) = Exchange_Rate r) sample_df \<and>
   stat_row_of ''USD/EUR'' (curr_data sample_df ''USD/EUR'')
     \<in> set (stats_data (filtered_data sample_df [''USD/EUR'', ''USD/JPY''] ''Last Year'')
              [''USD/EUR'', ''USD/JPY'']) \<and>
   Current_Rate (stat_row_of ''USD/EUR'' (curr_data sample_df ''USD/EUR'')) = Some (87/100) \<and>
   (\<exists>r \<in> set (filtered_data sample_df [''USD/EUR'', ''USD/JPY''] ''Last Year'').
      Currency_Pair r = ''USD/EUR'' \<and> Date r = 102 \<and>
      Current_Rate (stat_row_of ''USD/EUR'' (curr_data sample_df ''USD/EUR''))
        = Some (Exchange_Rate r))"
proof -
  let ?cs = "[''USD/EUR'', ''USD/JPY'']"
  let ?srow = "stat_row_of ''USD/EUR'' (curr_data sample_df ''USD/EUR'')"
  have h1: "sorted (map Date sample_df)" by (simp add: sample_df_def row_def)
  have h2: "\<forall>r \<in> set sample_df. round_nd 4 (Exchange_Rate r) = Exchange_Rate r"
    by (simp add: sample_df_def row_def round_nd_def round_half_even_def)
  have cd: "curr_data sample_df ''USD/EUR'' = [85/100, 86/100, 87/100]"
    by (simp add: curr_data_def sample_df_def row_def)
  have h3: "?srow \<in> set (stats_data (filtered_data sample_df ?cs ''Last Year'') ?cs)"
    unfolding sample_all by (simp add: cd)
  have nm: "Pair_Name ?srow = ''USD/EUR''" by (simp add: stat_row_of_def Let_def)
  from current_rate_latest [OF h1 h2 h3] obtain r where
    r: "r \<in> set (filtered_data sample_df ?cs ''Last Year'')" "Currency_Pair r = ''USD/EUR''"
       "\<forall>x \<in> set (filtered_data sample_df ?cs ''Last Year''). Currency_Pair x = ''USD/EUR'' \<longrightarrow> Date x \<le> Date r"
       "Current_Rate ?srow = Some (Exchange_Rate r)"
    unfolding nm by blast
  have "row 102 ''USD/EUR'' (87/100) \<in> set (filtered_data sample_df ?cs ''Last Year'')"
    unfolding sample_all by (simp add: sample_df_def)
  with r(3) have "102 \<le> Date r" by (force simp: row_def)
  moreover have "Date r \<le> 102" using r(1) unfolding sample_all by (auto simp: sample_df_def row_def)
  ultimately have d: "Date r = 102" by simp
  with r(1,2) have "r = row 102 ''USD/EUR'' (87/100)"
    unfolding sample_all by (auto simp: sample_df_def row_def)
  then have "Current_Rate ?srow = Some (87/100)" using r(4) by (simp add: row_def)
  then show ?thesis using h1 h2 h3 r d by (auto simp: list_all_iff)
qed

subsection \<open>Basket series\<close>

text \<open>
  C7. For the date of every row of the view the basket series has an entry, the only one
  for that date, whose value is the sum of the rates of the rows of that date divided by
  their number. When the view holds one pair only and its (date, pair) keys are distinct,
  the entry is the rate of the row itself.
\<close>

theorem basket_is_mean:
  assumes "r \<in> set fd"
  shows "(let same = filter (\<lambda>x. Date x = Date r) fd
          in (Date r, Some (sum_list (map Exchange_Rate same) / real (length same)))
               \<in> set (basket_data fd)) \<and>
         distinct (map fst (basket_data fd)) \<and>
         ((\<forall>x \<in> set fd. Currency_Pair x = Currency_Pair r) \<and>
          distinct (map (\<lambda>x. (Date x, Currency_Pair x)) fd)
            \<longrightarrow> (Date r, Some (Exchange_Rate r)) \<in> set (basket_data fd))"
proof (intro conjI impI)
  let ?same = "filter (\<lambda>x. Date x = Date r) fd"
  have "r \<in> set ?same" using assms by simp
  then have "?same \<noteq> []" by (metis empty_iff empty_set)
  then have "mean_s (map Exchange_Rate ?same)
      = Some (sum_list (map Exchange_Rate ?same) / real (length ?same))"
    by (simp add: mean_s_def)
  with basket_entry [OF assms]
  show "let same = ?same in (Date r, Some (sum_list (map Exchange_Rate same) / real (length same)))
               \<in> set (basket_data fd)"
    by (simp add: Let_def)
next
  show "distinct (map fst (basket_data fd))" by (simp add: basket_dates)
next
  assume h: "(\<forall>x \<in> set fd. Currency_Pair x = Currency_Pair r) \<and>
          distinct (map (\<lambda>x. (Date x, Currency_Pair x)) fd)"
  then have "filter (\<lambda>x. (Date x, Currency_Pair x) = (Date r, Currency_Pair r)) fd = [r]"
    using assms by (intro filter_key_single) auto
  moreover have "filter (\<lambda>x. (Date x, Currency_Pair x) = (Date r, Currency_Pair r)) fd
      = filter (\<lambda>x. Date x = Date r) fd"
    using h by (intro filter_cong) auto
  ultimately have "filter (\<lambda>x. Date x = Date r) fd = [r]" by simp
  with basket_entry [OF assms]
  show "(Date r, Some (Exchange_Rate r)) \<in> set (basket_data fd)"
    by (simp add: mean_s_def)
qed

theorem basket_is_mean_witness:
  "row 101 ''USD/EUR'' (86/100)
     \<in> set (filtered_data sample_df [''USD/EUR'', ''USD/JPY''] ''Last 30 Days'') \<and>
   (101, Some (86/100)) \<in> set (basket_data
      (filtered_data sample_df [''USD/EUR'', ''USD/JPY''] ''Last 30 Days'')) \<and>
   distinct (map fst (basket_data
      (filtered_data sample_df [''USD/EUR'', ''USD/JPY''] ''Last 30 Days'')))"
proof -
  let ?fd = "filtered_data sample_df [''USD/EUR'', ''USD/JPY''] ''Last 30 Days''"
  let ?r = "row 101 ''USD/EUR'' (86/100)"
  have m: "?r \<in> set ?fd" unfolding sample_view by simp
  have one: "\<forall>x \<in> set ?fd. Currency_Pair x = Currency_Pair ?r"
    unfolding sample_view by (simp add: row_def)
  have dist: "distinct (map key ?fd)" unfolding sample_view by (simp add: row_def)
  from basket_is_mean [OF m] one dist
  have "(Date ?r, Some (Exchange_Rate ?r)) \<in> set (basket_data ?fd)"
    and "distinct (map fst (basket_data ?fd))" by blast+
  then show ?thesis using m by (simp add: row_def)
qed

subsection \<open>Generated rows\<close>

text \<open>
  For every date range \<open>a .. b\<close> and the six configured pairs, \<open>generate\<close> builds one
  row per day and pair, every volume lies in the half-open interval from 1000000 to
  8000000, and the (date, pair) keys are distinct.
\<close>

lemma generate_structure:
  "length (generate R (date_range a b) pairs s) = length (date_range a b) * 6 \<and>
   (\<forall>r \<in> set (generate R (date_range a b) pairs s). 1000000 \<le> Volume r \<and> Volume r < 8000000) \<and>
   distinct (map key (generate R (date_range a b) pairs s))"
proof (intro conjI ballI)
  let ?rows = "generate R (date_range a b) pairs s"
  have k: "map key ?rows = List.product (date_range a b) (map fst pairs)"
    by (simp add: generate_def date_loop_keys)
  from arg_cong [OF k, of length]
  show "length ?rows = length (date_range a b) * 6" by (simp add: pairs_names)
  have "distinct (List.product (date_range a b) (map fst pairs))"
    by (intro distinct_product) (simp_all add: pairs_names date_range_def)
  then show "distinct (map key ?rows)" by (simp only: k)
next
  fix r assume "r \<in> set (generate R (date_range a b) pairs s)"
  then have "r \<in> set (fst (date_loop R pairs 0 (date_range a b) s))" by (simp add: generate_def)
  from date_loop_row [OF this] obtain j d t where "r \<in> set (fst (pair_loop R j d pairs t))"
    by auto
  then have v: "1000000 \<le> Volume r \<and> Volume r < 8000000" by (rule pair_loop_volume)
  from v show "1000000 \<le> Volume r" by simp
  from v show "Volume r < 8000000" by simp
qed

text \<open>
  C3. The rate of a generated row need not be positive. The volatilities of the table at
  lines 23-28 are about one hundredth of their base rates in absolute units, but line 37
  applies them as relative changes, and nothing clamps the result: with the standard
  normal draw -1 on the first day, USD/JPY (base 110, volatility 1.5) gets the rate
  110 * (1 + 0 - 1.5) = -55, against the "realistic base rates" and "realistic
  fluctuations" the comments at lines 21 and 34 announce.
\<close>

theorem negative_rate_example:
  "length (generate (fixed_source (- 1) 0) (date_range 0 0) pairs ()) = 6 \<and>
   Currency_Pair (generate (fixed_source (- 1) 0) (date_range 0 0) pairs () ! 2) = ''USD/JPY'' \<and>
   Exchange_Rate (generate (fixed_source (- 1) 0) (date_range 0 0) pairs () ! 2) = - 55"
  by (simp add: generate_def date_range_def pairs_def fixed_source_def normal_def randint_def
      round_nd_def round_half_even_def Let_def upto.simps)

subsection \<open>Size of the data set\<close>

text \<open>
  C2. \<open>load_data\<close> builds 366 * 6 = 2196 rows, whatever the random source: the range
  from 2023-01-01 to 2024-01-01 includes both ends and so has 366 days.
\<close>

theorem load_data_size: "length (load_data R s) = 2196"
  by (simp add: load_data_def generate_length date_range_def day_number_def
      days_before_year_def days_before_month_def leap_year_def pairs_def)

text \<open>In particular the data set does not have 365 * 6 = 2190 rows.\<close>

theorem load_data_size_not_2190:
  "length (load_data (fixed_source 0 0) ()) \<noteq> 365 * 6"
  by (simp add: load_data_def generate_length date_range_def day_number_def
      days_before_year_def days_before_month_def leap_year_def pairs_def)

end
